theory Spec2Isabelle
  imports Main "HOL-Library.Char_ord" "HOL-Library.List_Lexorder" "HOL-Library.Multiset"
begin

section \<open>The parallel test runner \<^verbatim>\<open>sims/vcs/run_parallel_tests.py\<close>\<close>

text \<open>
  The development embeds the functions of \<^verbatim>\<open>run_parallel_tests.py\<close>:
  \<^verbatim>\<open>check_log_for_pattern\<close>, \<^verbatim>\<open>run_single_test\<close>, \<^verbatim>\<open>cleanup_handler\<close>,
  \<^verbatim>\<open>collect_tests\<close> and the part of \<^verbatim>\<open>main\<close> from test collection to the exit status.
  What the operating system, the file system and the regular expression library answer
  is an explicit argument of each function, so every \<^verbatim>\<open>try\<close>/\<^verbatim>\<open>except\<close> of the source
  is a branch of the model.
\<close>

subsection \<open>Statuses and exceptions\<close>

datatype status = PASSED | FAILED | TIMEOUT

text \<open>
  The strings the source uses for the three statuses (\<^verbatim>\<open>"PASSED"\<close>, \<^verbatim>\<open>"FAILED"\<close>,
  \<^verbatim>\<open>"TIMEOUT"\<close>), as written into the result file.
\<close>

fun status_str :: "status \<Rightarrow> string" where
  "status_str PASSED = ''PASSED''"
| "status_str FAILED = ''FAILED''"
| "status_str TIMEOUT = ''TIMEOUT''"

text \<open>
  Python exceptions, as far as the source tells them apart: \<^verbatim>\<open>except Exception\<close> catches
  every \<open>Exception\<close> (the text is what \<^verbatim>\<open>{e}\<close> prints) and lets \<open>SystemExit\<close>, which
  \<^verbatim>\<open>sys.exit\<close> raises, pass; a bare \<^verbatim>\<open>except:\<close> catches both.
\<close>

datatype pyexc = Exception string | SystemExit int

fun is_Exception :: "pyexc \<Rightarrow> bool" where
  "is_Exception (Exception _) = True"
| "is_Exception (SystemExit _) = False"

subsection \<open>Regular expressions of the log patterns\<close>

text \<open>
  The three patterns of the source use literal characters, \<^verbatim>\<open>.\<close>, a postfix \<^verbatim>\<open>*\<close> on one
  character and a top-level \<^verbatim>\<open>|\<close>. \<open>re_compile\<close> reads exactly this fragment of Python's
  \<^verbatim>\<open>re\<close> syntax; \<open>re_search\<close> is \<^verbatim>\<open>regex.search(line)\<close> as a truth value. Characters are
  8-bit; \<^verbatim>\<open>re.IGNORECASE\<close> folds the ASCII letters.
\<close>

datatype atom = Chr char | AnyChar

datatype item = One atom | Many atom

definition lower_char :: "char \<Rightarrow> char" where
  "lower_char c =
     (let n = (of_char c :: nat) in if 65 \<le> n \<and> n \<le> 90 then char_of (n + 32) else c)"

definition lower :: "string \<Rightarrow> string" where
  "lower s = map lower_char s"

fun startswith :: "string \<Rightarrow> string \<Rightarrow> bool" where
  "startswith s [] = True"
| "startswith [] (p # ps) = False"
| "startswith (c # cs) (p # ps) = (c = p \<and> startswith cs ps)"

text \<open>Python's \<^verbatim>\<open>sub in s\<close> on strings.\<close>

fun contains :: "string \<Rightarrow> string \<Rightarrow> bool" where
  "contains sub [] = (sub = [])"
| "contains sub (c # cs) = (startswith (c # cs) sub \<or> contains sub cs)"

fun parse_atom :: "char \<Rightarrow> atom" where
  "parse_atom c = (if c = CHR ''.'' then AnyChar else Chr c)"

fun parse_items :: "string \<Rightarrow> item list" where
  "parse_items [] = []"
| "parse_items [c] = [One (parse_atom c)]"
| "parse_items (c # d # cs) =
     (if d = CHR ''*'' then Many (parse_atom c) # parse_items cs
      else One (parse_atom c) # parse_items (d # cs))"

text \<open>The alternatives of a pattern: the text between the top-level bars.\<close>

fun split_bar :: "string \<Rightarrow> string \<Rightarrow> string list" where
  "split_bar acc [] = [acc]"
| "split_bar acc (c # cs) =
     (if c = CHR ''|'' then acc # split_bar [] cs else split_bar (acc @ [c]) cs)"

record regex =
  alternatives :: "item list list"
  ignorecase :: bool

definition re_compile :: "string \<Rightarrow> bool \<Rightarrow> regex" where
  "re_compile pattern ic =
     \<lparr>alternatives = map parse_items (split_bar [] pattern), ignorecase = ic\<rparr>"

text \<open>\<^verbatim>\<open>.\<close> matches every character but the newline (no \<^verbatim>\<open>re.DOTALL\<close>).\<close>

fun atom_matches :: "bool \<Rightarrow> atom \<Rightarrow> char \<Rightarrow> bool" where
  "atom_matches ic AnyChar c = (c \<noteq> CHR 0x0A)"
| "atom_matches ic (Chr p) c = (if ic then lower_char p = lower_char c else p = c)"

text \<open>Does some prefix of the string match the sequence of items?\<close>

fun match_here :: "bool \<Rightarrow> item list \<Rightarrow> string \<Rightarrow> bool" where
  "match_here ic [] s = True"
| "match_here ic (One a # is) [] = False"
| "match_here ic (One a # is) (c # cs) = (atom_matches ic a c \<and> match_here ic is cs)"
| "match_here ic (Many a # is) [] = match_here ic is []"
| "match_here ic (Many a # is) (c # cs) =
     (match_here ic is (c # cs) \<or> (atom_matches ic a c \<and> match_here ic (Many a # is) cs))"

text \<open>A match may start at every position, the end of the string included.\<close>

fun search_from :: "bool \<Rightarrow> item list \<Rightarrow> string \<Rightarrow> bool" where
  "search_from ic is [] = match_here ic is []"
| "search_from ic is (c # cs) = (match_here ic is (c # cs) \<or> search_from ic is cs)"

definition re_search :: "regex \<Rightarrow> string \<Rightarrow> bool" where
  "re_search regex line =
     list_ex (\<lambda>is. search_from (ignorecase regex) is line) (alternatives regex)"

subsection \<open>\<^verbatim>\<open>check_log_for_pattern\<close>\<close>

text \<open>
  The log file as the classifier finds it: absent, present but failing to open or read
  (any exception of the scan), or its text as decoded with \<^verbatim>\<open>errors='ignore'\<close>.
\<close>

datatype log_file = Missing | Unreadable | Content string

text \<open>
  \<^verbatim>\<open>for line in f\<close>: the text cut after every newline, each line keeping its newline.
\<close>

fun file_lines :: "string \<Rightarrow> string \<Rightarrow> string list" where
  "file_lines acc [] = (if acc = [] then [] else [acc])"
| "file_lines acc (c # cs) =
     (if c = CHR 0x0A then (acc @ [c]) # file_lines [] cs else file_lines (acc @ [c]) cs)"

definition check_log_for_pattern :: "log_file \<Rightarrow> string \<Rightarrow> bool" where
  "check_log_for_pattern log pattern =
     (case log of
        Missing \<Rightarrow> False
      | Unreadable \<Rightarrow> False
      | Content text \<Rightarrow>
          (let regex = re_compile pattern (contains ''error'' (lower pattern))
           in list_ex (re_search regex) (file_lines [] text)))"

subsection \<open>The classification of \<^verbatim>\<open>run_single_test\<close> (lines 130 to 146)\<close>

datatype reason = WallClock | MaxCycles | NoReason | ExitCode int

definition determine_result :: "log_file \<Rightarrow> int \<Rightarrow> status \<times> reason" where
  "determine_result log exit_code =
     (if exit_code = 124 then (TIMEOUT, WallClock)
      else if check_log_for_pattern log ''Fatal:.*TestDriver.*at time.*ps''
        then (TIMEOUT, MaxCycles)
      else if check_log_for_pattern log ''Error:|Assertion failed'' \<and>
              \<not> check_log_for_pattern log ''Fatal:.*TestDriver.*at time''
        then (FAILED, NoReason)
      else if exit_code \<noteq> 0 then (FAILED, ExitCode exit_code)
      else (PASSED, NoReason))"

subsection \<open>Paths\<close>

text \<open>
  A \<^verbatim>\<open>pathlib.Path\<close> is the list of its parts; \<^verbatim>\<open>sorted\<close> compares paths part by part
  and the parts character by character, which is the order of \<open>string list\<close>.
  \<^verbatim>\<open>Path.name\<close> is the last part. \<^verbatim>\<open>Path.stem\<close> is the name up to its last dot, when
  that dot is neither the first nor the last character of the name.
\<close>

type_synonym path = "string list"

definition path_name :: "path \<Rightarrow> string" where
  "path_name p = (if p = [] then [] else last p)"

text \<open>\<^verbatim>\<open>str.rfind\<close>, with \<open>None\<close> for Python's -1.\<close>

fun rfind :: "char \<Rightarrow> string \<Rightarrow> nat option" where
  "rfind ch [] = None"
| "rfind ch (c # cs) =
     (case rfind ch cs of
        Some i \<Rightarrow> Some (Suc i)
      | None \<Rightarrow> if c = ch then Some 0 else None)"

definition path_stem :: "path \<Rightarrow> string" where
  "path_stem p =
     (let name = path_name p
      in case rfind (CHR ''.'') name of
           None \<Rightarrow> name
         | Some i \<Rightarrow> if 0 < i \<and> Suc i < length name then take i name else name)"

subsection \<open>Processes, signals and the calls the runner makes\<close>

text \<open>
  A \<^verbatim>\<open>Popen\<close> handle is the pid of the child. The child is started with
  \<^verbatim>\<open>preexec_fn=os.setsid\<close>, so it leads a process group whose id is that pid, and
  \<^verbatim>\<open>os.getpgid(proc.pid)\<close> is the pid again.
\<close>

type_synonym proc = nat

datatype signal = SIGTERM | SIGKILL

text \<open>
  The calls that act on other processes or on time, in the order they are made:
  \<^verbatim>\<open>os.killpg(os.getpgid(proc.pid), sig)\<close>, \<^verbatim>\<open>proc.terminate()\<close>, \<^verbatim>\<open>proc.kill()\<close> and
  \<^verbatim>\<open>time.sleep(seconds)\<close>.
\<close>

datatype action = Killpg proc signal | Terminate proc | Kill proc | Sleep nat

datatype console =
    Starting string
  | ErrorLine string string
  | ResultLine status string reason

subsection \<open>\<^verbatim>\<open>cleanup_handler\<close>\<close>

text \<open>
  \<^verbatim>\<open>try: proc.terminate() except: pass\<close> for every tracked process: the call is made and
  whatever it raises is dropped. The first argument says which calls raise.
\<close>

fun terminate_all :: "(proc \<Rightarrow> string option) \<Rightarrow> proc list \<Rightarrow> action list" where
  "terminate_all raises [] = []"
| "terminate_all raises (p # ps) =
     (case raises p of
        None \<Rightarrow> Terminate p # terminate_all raises ps
      | Some e \<Rightarrow> Terminate p # terminate_all raises ps)"

fun kill_all :: "(proc \<Rightarrow> string option) \<Rightarrow> proc list \<Rightarrow> action list" where
  "kill_all raises [] = []"
| "kill_all raises (p # ps) =
     (case raises p of
        None \<Rightarrow> Kill p # kill_all raises ps
      | Some e \<Rightarrow> Kill p # kill_all raises ps)"

record signal_env =
  terminate_raises :: "proc \<Rightarrow> string option"
  kill_raises :: "proc \<Rightarrow> string option"

text \<open>
  The handler of SIGINT and SIGTERM, run on the list \<^verbatim>\<open>active_processes\<close> of the process
  that receives the signal. It returns the calls it made and the exception it ends with,
  \<^verbatim>\<open>sys.exit(130)\<close>; the line it prints first is left out.
\<close>

definition cleanup_handler :: "signal_env \<Rightarrow> proc list \<Rightarrow> action list \<times> pyexc" where
  "cleanup_handler senv active_processes =
     (terminate_all (terminate_raises senv) active_processes @ [Sleep 1] @
        kill_all (kill_raises senv) active_processes,
      SystemExit 130)"

subsection \<open>\<^verbatim>\<open>run_single_test\<close>\<close>

text \<open>
  What \<^verbatim>\<open>proc.wait(timeout=wall_timeout)\<close> does: the command exits with a code, the
  timeout expires, the call raises another exception, or a signal arrives while the worker
  waits and \<^verbatim>\<open>cleanup_handler\<close> runs in the worker.
\<close>

datatype wait_result = Exits int | TimeoutExpired | WaitRaises string | Interrupted

text \<open>
  What the environment answers during one test. A \<open>Some\<close> or \<open>Inl\<close> text is the
  exception the call raises.
\<close>

record test_env =
  open_log :: "string option"
  popen :: "string + proc"
  wait :: wait_result
  killpg_term :: "string option"
  killpg_kill :: "string option"
  handler_env :: signal_env
  log :: log_file
  write_result :: "string option"

record supervised =
  sv_exit :: "pyexc + int"
  sv_registry :: "proc list"
  sv_actions :: "action list"

text \<open>
  Lines 101 to 124, the body of the outer \<^verbatim>\<open>try\<close>: the exception that leaves it or the
  value of \<^verbatim>\<open>exit_code\<close>, the list \<^verbatim>\<open>active_processes\<close> afterwards and the calls made.
  \<^verbatim>\<open>list.remove\<close> deletes the first equal element, as \<open>remove1\<close> does; the \<^verbatim>\<open>finally\<close>
  clause runs on every way out of the inner \<^verbatim>\<open>try\<close>.
\<close>

definition supervise :: "test_env \<Rightarrow> proc list \<Rightarrow> supervised" where
  "supervise env active_processes =
     (case open_log env of
        Some e \<Rightarrow>
          \<lparr>sv_exit = Inl (Exception e), sv_registry = active_processes, sv_actions = []\<rparr>
      | None \<Rightarrow>
         (case popen env of
            Inl e \<Rightarrow>
              \<lparr>sv_exit = Inl (Exception e), sv_registry = active_processes, sv_actions = []\<rparr>
          | Inr proc \<Rightarrow>
             (let registered = active_processes @ [proc];
                  removed = (if proc \<in> set registered then remove1 proc registered
                             else registered)
              in case wait env of
                   Exits exit_code \<Rightarrow>
                     \<lparr>sv_exit = Inr exit_code, sv_registry = removed, sv_actions = []\<rparr>
                 | TimeoutExpired \<Rightarrow>
                    (case killpg_term env of
                       Some e \<Rightarrow>
                         \<lparr>sv_exit = Inl (Exception e), sv_registry = removed,
                          sv_actions = [Killpg proc SIGTERM]\<rparr>
                     | None \<Rightarrow>
                        (case killpg_kill env of
                           Some e \<Rightarrow>
                             \<lparr>sv_exit = Inr 124, sv_registry = removed,
                              sv_actions = [Killpg proc SIGTERM, Sleep 1, Killpg proc SIGKILL]\<rparr>
                         | None \<Rightarrow>
                             \<lparr>sv_exit = Inr 124, sv_registry = removed,
                              sv_actions = [Killpg proc SIGTERM, Sleep 1, Killpg proc SIGKILL]\<rparr>))
                 | WaitRaises e \<Rightarrow>
                     \<lparr>sv_exit = Inl (Exception e), sv_registry = removed, sv_actions = []\<rparr>
                 | Interrupted \<Rightarrow>
                    (let (calls, exit) = cleanup_handler (handler_env env) registered
                     in \<lparr>sv_exit = Inl exit, sv_registry = removed, sv_actions = calls\<rparr>))))"

record test_run =
  returned :: "pyexc + (string \<times> status)"
  registry :: "proc list"
  actions :: "action list"
  printed :: "console list"
  result_file :: "string option"

text \<open>
  The whole function: what it returns (a pair of test name and status) or the exception
  that leaves it, the list \<^verbatim>\<open>active_processes\<close> afterwards, the calls made, the lines
  printed (without their time stamps) and the text written to the result file. The
  \<^verbatim>\<open>make\<close> command line is not modelled: the function's result depends on the command
  only through what \<open>test_env\<close> answers.
\<close>

definition run_single_test :: "test_env \<Rightarrow> path \<Rightarrow> proc list \<Rightarrow> test_run" where
  "run_single_test env test_file active_processes =
     (let test_name = path_stem test_file;
          sv = supervise env active_processes
      in case sv_exit sv of
           Inl (Exception e) \<Rightarrow>
             (case write_result env of
                Some e' \<Rightarrow>
                  \<lparr>returned = Inl (Exception e'), registry = sv_registry sv,
                   actions = sv_actions sv,
                   printed = [Starting test_name, ErrorLine test_name e],
                   result_file = None\<rparr>
              | None \<Rightarrow>
                  \<lparr>returned = Inr (test_name, FAILED), registry = sv_registry sv,
                   actions = sv_actions sv,
                   printed = [Starting test_name, ErrorLine test_name e],
                   result_file = Some (''FAILED:'' @ test_name)\<rparr>)
         | Inl (SystemExit c) \<Rightarrow>
             \<lparr>returned = Inl (SystemExit c), registry = sv_registry sv,
              actions = sv_actions sv,
              printed = [Starting test_name],
              result_file = None\<rparr>
         | Inr exit_code \<Rightarrow>
             (let (status, reason) = determine_result (log env) exit_code
              in case write_result env of
                   Some e' \<Rightarrow>
                     \<lparr>returned = Inl (Exception e'), registry = sv_registry sv,
                      actions = sv_actions sv,
                      printed = [Starting test_name],
                      result_file = None\<rparr>
                 | None \<Rightarrow>
                     \<lparr>returned = Inr (test_name, status), registry = sv_registry sv,
                      actions = sv_actions sv,
                      printed = [Starting test_name, ResultLine status test_name reason],
                      result_file = Some (status_str status @ '':'' @ test_name)\<rparr>))"

subsection \<open>The effect of the calls on the process table\<close>

text \<open>
  A process has a pid and a process group and is running or not. \<^verbatim>\<open>proc.terminate()\<close>
  and \<^verbatim>\<open>proc.kill()\<close> signal the one process with the handle's pid; \<^verbatim>\<open>os.killpg\<close>
  signals every member of the group. The table takes the view most favourable to the
  runner: every process that is sent either signal stops at once.
\<close>

record process =
  pid :: nat
  pgid :: nat
  running :: bool

fun deliver :: "action \<Rightarrow> process list \<Rightarrow> process list" where
  "deliver (Killpg g sig) table =
     map (\<lambda>q. if pgid q = g then q\<lparr>running := False\<rparr> else q) table"
| "deliver (Terminate p) table =
     map (\<lambda>q. if pid q = p then q\<lparr>running := False\<rparr> else q) table"
| "deliver (Kill p) table =
     map (\<lambda>q. if pid q = p then q\<lparr>running := False\<rparr> else q) table"
| "deliver (Sleep n) table = table"

fun deliver_all :: "action list \<Rightarrow> process list \<Rightarrow> process list" where
  "deliver_all [] table = table"
| "deliver_all (a # as) table = deliver_all as (deliver a table)"

definition still_running :: "process list \<Rightarrow> nat list" where
  "still_running table = map pid (filter running table)"

subsection \<open>\<^verbatim>\<open>collect_tests\<close>\<close>

text \<open>
  The loop of \<^verbatim>\<open>collect_tests\<close> over the sorted glob result. \<open>re\<close> is the regular
  expression library on the exclusion pattern: \<open>None\<close> when \<^verbatim>\<open>re.search\<close> raises
  \<^verbatim>\<open>re.error\<close> for the pattern, else the search on a base name as a truth value.
  \<^verbatim>\<open>sys.exit(1)\<close> is the exception \<open>SystemExit 1\<close>.
\<close>

fun collect_loop ::
  "(string \<Rightarrow> (string \<Rightarrow> bool) option) \<Rightarrow> (path \<Rightarrow> bool) \<Rightarrow> string \<Rightarrow> path list \<Rightarrow>
   path list \<Rightarrow> pyexc + path list" where
  "collect_loop re is_file exclude_pattern [] tests = Inr tests"
| "collect_loop re is_file exclude_pattern (test_file # rest) tests =
     (if \<not> is_file test_file then collect_loop re is_file exclude_pattern rest tests
      else if exclude_pattern \<noteq> [] then
        (case re exclude_pattern of
           None \<Rightarrow> Inl (SystemExit 1)
         | Some search \<Rightarrow>
             if search (path_name test_file)
             then collect_loop re is_file exclude_pattern rest tests
             else collect_loop re is_file exclude_pattern rest (tests @ [test_file]))
      else collect_loop re is_file exclude_pattern rest (tests @ [test_file]))"

text \<open>\<open>glob_result\<close> is what \<^verbatim>\<open>binary_dir.glob(pattern)\<close> yields, in any order.\<close>

definition collect_tests ::
  "(string \<Rightarrow> (string \<Rightarrow> bool) option) \<Rightarrow> (path \<Rightarrow> bool) \<Rightarrow> path list \<Rightarrow> string \<Rightarrow>
   pyexc + path list" where
  "collect_tests re is_file glob_result exclude_pattern =
     collect_loop re is_file exclude_pattern (sort glob_result) []"

subsection \<open>The worker pool and the summary of \<^verbatim>\<open>main\<close>\<close>

text \<open>
  The dictionary \<^verbatim>\<open>results\<close>, in insertion order: an assignment to a key it holds
  replaces the value in place, a new key goes to the end.
\<close>

fun dict_set :: "'k \<Rightarrow> 'v \<Rightarrow> ('k \<times> 'v) list \<Rightarrow> ('k \<times> 'v) list" where
  "dict_set k v [] = [(k, v)]"
| "dict_set k v ((k', v') # d) =
     (if k' = k then (k', v) # d else (k', v') # dict_set k v d)"

text \<open>
  What the driver sees while it collects: a future completes, or SIGINT or SIGTERM
  reaches the driver.
\<close>

datatype event = Completed path | Signal

text \<open>
  The loop over \<^verbatim>\<open>as_completed(futures)\<close> (lines 301 to 308). \<open>future_result\<close> is what
  \<^verbatim>\<open>future.result()\<close> returns or raises for a test file. The tests run in the pool's
  worker processes, so the driver's own list \<^verbatim>\<open>active_processes\<close> is empty when its
  handler runs.
\<close>

fun as_completed_loop ::
  "signal_env \<Rightarrow> (path \<Rightarrow> pyexc + (string \<times> status)) \<Rightarrow> event list \<Rightarrow>
   (string \<times> status) list \<Rightarrow> pyexc + (string \<times> status) list" where
  "as_completed_loop senv future_result [] results = Inr results"
| "as_completed_loop senv future_result (Signal # es) results =
     Inl (snd (cleanup_handler senv []))"
| "as_completed_loop senv future_result (Completed test_file # es) results =
     (case future_result test_file of
        Inr (test_name, status) \<Rightarrow>
          as_completed_loop senv future_result es (dict_set test_name status results)
      | Inl (Exception e) \<Rightarrow>
          as_completed_loop senv future_result es
            (dict_set (path_stem test_file) FAILED results)
      | Inl (SystemExit c) \<Rightarrow> Inl (SystemExit c))"

text \<open>Lines 313 to 324: the three lists, filled in the order of the dictionary.\<close>

fun categorize ::
  "(string \<times> status) list \<Rightarrow> string list \<times> string list \<times> string list \<Rightarrow>
   string list \<times> string list \<times> string list" where
  "categorize [] (passed, failed, timeouts) = (passed, failed, timeouts)"
| "categorize ((test_name, status) # rest) (passed, failed, timeouts) =
     (if status = PASSED then categorize rest (passed @ [test_name], failed, timeouts)
      else if status = TIMEOUT then categorize rest (passed, failed, timeouts @ [test_name])
      else categorize rest (passed, failed @ [test_name], timeouts))"

text \<open>
  The exit status of the Python process when an exception leaves \<^verbatim>\<open>main\<close>: the code of
  \<^verbatim>\<open>sys.exit\<close>, and 1 for any other exception.
\<close>

fun exit_code_of :: "pyexc \<Rightarrow> int" where
  "exit_code_of (SystemExit c) = c"
| "exit_code_of (Exception e) = 1"

record run_env =
  re_lib :: "string \<Rightarrow> (string \<Rightarrow> bool) option"
  is_file :: "path \<Rightarrow> bool"
  glob_result :: "path list"
  exclude :: string
  worker_env :: "path \<Rightarrow> test_env"
  driver_signals :: signal_env
  events :: "event list"

record run_outcome =
  exit_status :: int
  submitted :: "path list"
  summary :: "(string list \<times> string list \<times> string list) option"

text \<open>
  \<^verbatim>\<open>main\<close> from line 255: the exit status of the run, the tests handed to the pool, and
  the lists \<^verbatim>\<open>(passed, failed, timeouts)\<close> when the summary is reached. A worker's list
  \<^verbatim>\<open>active_processes\<close> is empty when it takes a test. Argument parsing, the directory
  checks, the optional generator and comparison steps and the printing are left out.
\<close>

definition main :: "run_env \<Rightarrow> run_outcome" where
  "main env =
     (case collect_tests (re_lib env) (is_file env) (glob_result env) (exclude env) of
        Inl e \<Rightarrow> \<lparr>exit_status = exit_code_of e, submitted = [], summary = None\<rparr>
      | Inr tests \<Rightarrow>
          if tests = [] then \<lparr>exit_status = 1, submitted = [], summary = None\<rparr>
          else
            (case as_completed_loop (driver_signals env)
                    (\<lambda>test_file. returned (run_single_test (worker_env env test_file) test_file []))
                    (events env) [] of
               Inl e \<Rightarrow> \<lparr>exit_status = exit_code_of e, submitted = tests, summary = None\<rparr>
             | Inr results \<Rightarrow>
                 (let (passed, failed, timeouts) = categorize results ([], [], [])
                  in if failed \<noteq> [] \<or> timeouts \<noteq> []
                     then \<lparr>exit_status = 1, submitted = tests,
                           summary = Some (passed, failed, timeouts)\<rparr>
                     else \<lparr>exit_status = 0, submitted = tests,
                           summary = Some (passed, failed, timeouts)\<rparr>)))"

subsection \<open>The decision order as the specification words it\<close>

text \<open>
  Section 4.2 of the specification, for comparison with \<open>determine_result\<close>: case 3
  excludes the max-cycle marker of case 2, the pattern that ends in \<^verbatim>\<open>.*ps\<close>. This
  definition follows the specification's words, not the source.
\<close>

definition spec_classify :: "log_file \<Rightarrow> int \<Rightarrow> bool \<Rightarrow> status" where
  "spec_classify logfile exit_code timedOut =
     (if timedOut then TIMEOUT
      else if check_log_for_pattern logfile ''Fatal:.*TestDriver.*at time.*ps'' then TIMEOUT
      else if check_log_for_pattern logfile ''Error:|Assertion failed'' \<and>
              \<not> check_log_for_pattern logfile ''Fatal:.*TestDriver.*at time.*ps''
        then FAILED
      else if exit_code \<noteq> 0 then FAILED
      else PASSED)"

subsection \<open>Example environments\<close>

text \<open>No call of the handler raises.\<close>

definition no_raise :: signal_env where
  "no_raise = \<lparr>terminate_raises = (\<lambda>p. None), kill_raises = (\<lambda>p. None)\<rparr>"

text \<open>
  A test where nothing goes wrong: the log opens, the command starts as process 4000 and
  exits with 0, the log is empty and the result file is written.
\<close>

definition plain_env :: test_env where
  "plain_env =
     \<lparr>open_log = None, popen = Inr 4000, wait = Exits 0, killpg_term = None,
      killpg_kill = None, handler_env = no_raise, log = Content [], write_result = None\<rparr>"

text \<open>
  A stand-in for the regular expression library on exclusion patterns: the pattern
  \<^verbatim>\<open>[\<close> is invalid, every other pattern is searched as a literal text.
\<close>

definition literal_re :: "string \<Rightarrow> (string \<Rightarrow> bool) option" where
  "literal_re pattern = (if pattern = ''['' then None else Some (\<lambda>name. contains pattern name))"

text \<open>Two object files, both passing; \<^verbatim>\<open>b.o\<close> completes first.\<close>

definition example_run :: run_env where
  "example_run =
     \<lparr>re_lib = literal_re, is_file = (\<lambda>p. True),
      glob_result = [[''asm_test'', ''b.o''], [''asm_test'', ''a.o'']],
      exclude = [], worker_env = (\<lambda>t. plain_env), driver_signals = no_raise,
      events = [Completed [''asm_test'', ''b.o''], Completed [''asm_test'', ''a.o'']]\<rparr>"

text \<open>
  The pattern \<^verbatim>\<open>t.*\<close> on a directory that holds the assembly source \<^verbatim>\<open>t.S\<close> beside the
  object file \<^verbatim>\<open>t.o\<close>: the run on the source exits with 1 and completes first, the run
  on the object file exits with 0.
\<close>

definition same_stem_run :: run_env where
  "same_stem_run =
     \<lparr>re_lib = literal_re, is_file = (\<lambda>p. True),
      glob_result = [[''asm_test'', ''t.o''], [''asm_test'', ''t.S'']],
      exclude = [],
      worker_env = (\<lambda>t. if t = [''asm_test'', ''t.S''] then plain_env\<lparr>wait := Exits 1\<rparr>
                         else plain_env),
      driver_signals = no_raise,
      events = [Completed [''asm_test'', ''t.S''], Completed [''asm_test'', ''t.o'']]\<rparr>"

section \<open>Properties\<close>

subsection \<open>Auxiliary facts\<close>

lemma reason_WallClock_iff: "snd (determine_result l c) = WallClock \<longleftrightarrow> c = 124"
  by (simp add: determine_result_def)

lemma status_of_124: "determine_result l 124 = (TIMEOUT, WallClock)"
  by (simp add: determine_result_def)

text \<open>
  The source and the specification's order agree on every log that, when it has a line
  with the shorter marker of case 3, also has a line with the marker of case 2.
\<close>

lemma determine_result_agrees_with_spec:
  assumes "check_log_for_pattern l ''Fatal:.*TestDriver.*at time'' \<Longrightarrow>
           check_log_for_pattern l ''Fatal:.*TestDriver.*at time.*ps''"
  shows "fst (determine_result l c) = spec_classify l c (c = 124)"
  using assms by (auto simp: determine_result_def spec_classify_def)

lemma supervise_registry:
  assumes "\<forall>proc. popen env = Inr proc \<longrightarrow> proc \<notin> set reg"
  shows "sv_registry (supervise env reg) = reg"
  using assms
  by (auto simp: supervise_def Let_def remove1_append cleanup_handler_def
           split: option.splits sum.splits wait_result.splits prod.splits)

lemma run_single_test_registry:
  "registry (run_single_test env tf reg) = sv_registry (supervise env reg)"
  by (auto simp: run_single_test_def Let_def
           split: sum.splits pyexc.splits option.splits prod.splits)

lemma dict_set_keys:
  "map fst (dict_set k v d) = (if k \<in> set (map fst d) then map fst d else map fst d @ [k])"
  by (induction d) force+

lemma dict_set_keys_set: "set (map fst (dict_set k v d)) = insert k (set (map fst d))"
  by (auto simp: dict_set_keys)

lemma dict_set_distinct: "distinct (map fst d) \<Longrightarrow> distinct (map fst (dict_set k v d))"
  by (simp add: dict_set_keys)

lemma returned_name:
  "returned (run_single_test env tf reg) = Inr (n, s) \<Longrightarrow> n = path_stem tf"
  by (auto simp: run_single_test_def Let_def
           split: sum.splits pyexc.splits option.splits prod.splits)

lemma sv_exit_SystemExit:
  "sv_exit (supervise env reg) = Inl (SystemExit c) \<Longrightarrow> c = 130 \<and> wait env = Interrupted"
  by (auto simp: supervise_def Let_def cleanup_handler_def
           split: option.splits sum.splits wait_result.splits)

lemma returned_SystemExit:
  "returned (run_single_test env tf reg) = Inl (SystemExit c) \<Longrightarrow>
   c = 130 \<and> wait env = Interrupted"
  using sv_exit_SystemExit[of env reg c]
  by (auto simp: run_single_test_def Let_def
           split: sum.splits pyexc.splits option.splits prod.splits)

text \<open>
  A loop over completions only, none of which raises \<open>SystemExit\<close>, ends with a
  dictionary that has one key for every name.
\<close>

lemma loop_completes:
  assumes "\<forall>t\<in>set order. (\<forall>c. fr t \<noteq> Inl (SystemExit c)) \<and>
                           (\<forall>n s. fr t = Inr (n, s) \<longrightarrow> n = path_stem t)"
      and "distinct (map fst r)"
  shows "\<exists>results. as_completed_loop senv fr (map Completed order) r = Inr results \<and>
           distinct (map fst results) \<and>
           set (map fst results) = set (map fst r) \<union> path_stem ` set order"
  using assms
proof (induction order arbitrary: r)
  case Nil
  then show ?case by simp
next
  case (Cons t order)
  have step: "\<exists>v. as_completed_loop senv fr (map Completed (t # order)) r =
                 as_completed_loop senv fr (map Completed order) (dict_set (path_stem t) v r)"
  proof (cases "fr t")
    case (Inl e)
    with Cons.prems(1) obtain x where "e = Exception x" by (cases e) auto
    with Inl show ?thesis by auto
  next
    case (Inr ns)
    obtain n s where ns: "ns = (n, s)" by (cases ns)
    with Inr Cons.prems(1) have "n = path_stem t" by auto
    with Inr ns show ?thesis by auto
  qed
  then obtain v where
    v: "as_completed_loop senv fr (map Completed (t # order)) r =
        as_completed_loop senv fr (map Completed order) (dict_set (path_stem t) v r)" ..
  have d: "distinct (map fst (dict_set (path_stem t) v r))"
    using Cons.prems(2) by (rule dict_set_distinct)
  from Cons.prems(1)
  have rest: "\<forall>t\<in>set order. (\<forall>c. fr t \<noteq> Inl (SystemExit c)) \<and>
                             (\<forall>n s. fr t = Inr (n, s) \<longrightarrow> n = path_stem t)"
    by simp
  from Cons.IH[OF rest d] obtain results where
    res: "as_completed_loop senv fr (map Completed order) (dict_set (path_stem t) v r) =
          Inr results"
    and dis: "distinct (map fst results)"
    and keys: "set (map fst results) =
               set (map fst (dict_set (path_stem t) v r)) \<union> path_stem ` set order"
    by blast
  have "as_completed_loop senv fr (map Completed (t # order)) r = Inr results"
    using v res by (simp only:)
  moreover have "set (map fst results) = set (map fst r) \<union> path_stem ` set (t # order)"
    unfolding keys dict_set_keys_set by auto
  ultimately show ?case using dis by blast
qed

lemma categorize_mset:
  "categorize rs (p, f, t) = (p', f', t') \<Longrightarrow>
   mset (p' @ f' @ t') = mset (p @ f @ t) + mset (map fst rs)"
  by (induction rs arbitrary: p f t) (auto split: if_splits)



lemma main_completed:
  assumes c: "collect_tests (re_lib env) (is_file env) (glob_result env) (exclude env) =
              Inr tests"
      and ne: "tests \<noteq> []"
      and l: "as_completed_loop (driver_signals env)
                (\<lambda>test_file. returned (run_single_test (worker_env env test_file) test_file []))
                (events env) [] = Inr results"
      and cat: "categorize results ([], [], []) = (passed, failed, timeouts)"
  shows "main env = \<lparr>exit_status = (if failed = [] \<and> timeouts = [] then 0 else 1),
                     submitted = tests, summary = Some (passed, failed, timeouts)\<rparr>"
  using c ne l cat by (simp add: main_def)


lemma collect_loop_invalid:
  "exclude_pattern \<noteq> [] \<Longrightarrow> re exclude_pattern = None \<Longrightarrow>
   collect_loop re isf exclude_pattern fs acc =
     (if \<exists>f\<in>set fs. isf f then Inl (SystemExit 1) else Inr acc)"
  by (induction fs arbitrary: acc) auto

lemma collect_loop_no_pattern:
  "collect_loop re isf [] fs acc = Inr (acc @ filter isf fs)"
  by (induction fs arbitrary: acc) auto

lemma collect_loop_valid:
  "exclude_pattern \<noteq> [] \<Longrightarrow> re exclude_pattern = Some search \<Longrightarrow>
   collect_loop re isf exclude_pattern fs acc =
     Inr (acc @ filter (\<lambda>f. isf f \<and> \<not> search (path_name f)) fs)"
  by (induction fs arbitrary: acc) auto

lemma example_collect:
  "collect_tests (re_lib example_run) (is_file example_run) (glob_result example_run)
     (exclude example_run) = Inr [[''asm_test'', ''a.o''], [''asm_test'', ''b.o'']]"
  by (simp add: example_run_def collect_tests_def)

lemma example_stems:
  "path_stem [''asm_test'', ''a.o''] = ''a''"
  "path_stem [''asm_test'', ''b.o''] = ''b''"
  "path_stem [''asm_test'', ''t.o''] = ''t''"
  by (simp_all add: path_stem_def path_name_def)

text \<open>
  The sibling path of the handler: on a wall-clock timeout the runner signals the group,
  and no member of the group of process 4000 is left.
\<close>

lemma timeout_path_stops_group:
  "actions (run_single_test (plain_env\<lparr>wait := TimeoutExpired\<rparr>) [''asm_test'', ''t.o''] []) =
     [Killpg 4000 SIGTERM, Sleep 1, Killpg 4000 SIGKILL] \<and>
   still_running
     (deliver_all
        (actions (run_single_test (plain_env\<lparr>wait := TimeoutExpired\<rparr>)
           [''asm_test'', ''t.o''] []))
        [\<lparr>pid = 4000, pgid = 4000, running = True\<rparr>,
         \<lparr>pid = 4001, pgid = 4000, running = True\<rparr>]) = []"
  by (simp add: run_single_test_def supervise_def plain_env_def still_running_def Let_def
        status_of_124)

subsection \<open>The classifier\<close>

text \<open>
  Claim C1. The classifier applies five cases, first match first: a timed-out run is
  TIMEOUT; else a log with the max-cycle marker is TIMEOUT; else a log with an error or
  assertion marker that does not match the same max-cycle marker as case 2 is FAILED; else
  a non-zero exit code is FAILED; else PASSED.

  The source tests a shorter marker in case 3, \<^verbatim>\<open>Fatal:.*TestDriver.*at time\<close> without
  the final \<^verbatim>\<open>.*ps\<close> of case 2. On a log with an error line and a fatal line that does not
  go on to \<^verbatim>\<open>ps\<close>, and exit code 0, the source answers PASSED where the claimed order
  answers FAILED.
\<close>

theorem error_beside_fatal_without_ps_is_PASSED:
  "check_log_for_pattern
     (Content (''Error: tohost mismatch'' @ [CHR 0x0A] @
               ''Fatal: TestDriver stopped at time 1200'' @ [CHR 0x0A]))
     ''Error:|Assertion failed'' \<and>
   \<not> check_log_for_pattern
     (Content (''Error: tohost mismatch'' @ [CHR 0x0A] @
               ''Fatal: TestDriver stopped at time 1200'' @ [CHR 0x0A]))
     ''Fatal:.*TestDriver.*at time.*ps'' \<and>
   determine_result
     (Content (''Error: tohost mismatch'' @ [CHR 0x0A] @
               ''Fatal: TestDriver stopped at time 1200'' @ [CHR 0x0A])) 0
     = (PASSED, NoReason) \<and>
   spec_classify
     (Content (''Error: tohost mismatch'' @ [CHR 0x0A] @
               ''Fatal: TestDriver stopped at time 1200'' @ [CHR 0x0A])) 0 False
     = FAILED"
  by code_simp

subsection \<open>The supervisor\<close>

text \<open>
  Claim C2, as amended. When the log opens and the command starts as \<open>proc\<close>: if the
  wall-clock timeout expires and the group still exists, so that the first
  \<^verbatim>\<open>os.killpg\<close> does not raise, the runner sends SIGTERM to the group, sleeps one second,
  sends SIGKILL to the same group and sets the exit code to 124, which the classifier
  reads as a wall-clock timeout. If the command exits within the budget with code \<open>c\<close>,
  no signal is sent and the exit code is \<open>c\<close>; the run is then read as a wall-clock
  timeout exactly when \<open>c\<close> is 124, the only form in which the timed-out signal exists.
\<close>

theorem supervise_timeout_or_exit:
  assumes "open_log env = None" and "popen env = Inr proc"
  shows "(wait env = TimeoutExpired \<and> killpg_term env = None \<longrightarrow>
            sv_exit (supervise env reg) = Inr 124 \<and>
            sv_actions (supervise env reg) =
              [Killpg proc SIGTERM, Sleep 1, Killpg proc SIGKILL] \<and>
            snd (determine_result l 124) = WallClock) \<and>
         (wait env = Exits c \<longrightarrow>
            sv_exit (supervise env reg) = Inr c \<and>
            sv_actions (supervise env reg) = [] \<and>
            (snd (determine_result l c) = WallClock \<longleftrightarrow> c = 124))"
  using assms
  by (auto simp: supervise_def Let_def reason_WallClock_iff split: option.splits)

text \<open>The timeout path of the theorem, on the example test with the timeout expiring.\<close>

theorem supervise_timeout_or_exit_witness:
  "sv_exit (supervise (plain_env\<lparr>wait := TimeoutExpired\<rparr>) []) = Inr 124 \<and>
   sv_actions (supervise (plain_env\<lparr>wait := TimeoutExpired\<rparr>) []) =
     [Killpg 4000 SIGTERM, Sleep 1, Killpg 4000 SIGKILL] \<and>
   sv_exit (supervise (plain_env\<lparr>wait := Exits 3\<rparr>) []) = Inr 3"
proof -
  have a: "open_log (plain_env\<lparr>wait := TimeoutExpired\<rparr>) = None"
          "popen (plain_env\<lparr>wait := TimeoutExpired\<rparr>) = Inr 4000"
          "wait (plain_env\<lparr>wait := TimeoutExpired\<rparr>) = TimeoutExpired"
          "killpg_term (plain_env\<lparr>wait := TimeoutExpired\<rparr>) = None"
    by (simp_all add: plain_env_def)
  have b: "open_log (plain_env\<lparr>wait := Exits 3\<rparr>) = None"
          "popen (plain_env\<lparr>wait := Exits 3\<rparr>) = Inr 4000"
          "wait (plain_env\<lparr>wait := Exits 3\<rparr>) = Exits 3"
    by (simp_all add: plain_env_def)
  from supervise_timeout_or_exit[OF a(1,2), where reg = "[]" and l = "Content []" and c = 0]
       a(3,4)
       supervise_timeout_or_exit[OF b(1,2), where reg = "[]" and l = "Content []" and c = 3]
       b(3)
  show ?thesis by simp
qed

text \<open>
  Claim C2 as stated fails: a command that exits by itself with status 124, well within
  the budget, receives no signal, and the run is reported as a wall-clock timeout, not with
  the timed-out signal false.
\<close>

theorem exit_124_within_budget_counterexample:
  "sv_exit (supervise (plain_env\<lparr>wait := Exits 124\<rparr>) []) = Inr 124 \<and>
   actions (run_single_test (plain_env\<lparr>wait := Exits 124\<rparr>) [''asm_test'', ''t.o''] []) = [] \<and>
   printed (run_single_test (plain_env\<lparr>wait := Exits 124\<rparr>) [''asm_test'', ''t.o''] []) =
     [Starting ''t'', ResultLine TIMEOUT ''t'' WallClock]"
  by (simp add: run_single_test_def supervise_def plain_env_def Let_def status_of_124
        example_stems)

text \<open>
  Claim C7. On every way out of \<^verbatim>\<open>run_single_test\<close> (normal exit, timeout, a raising
  call, a signal during the wait) the handle appended after the spawn is no longer in
  \<^verbatim>\<open>active_processes\<close>, and the list is what it was before the call. The handle is a new
  object, so it is not in the list beforehand.
\<close>

theorem handle_removed_on_every_path:
  assumes "popen env = Inr proc" and "proc \<notin> set reg"
  shows "registry (run_single_test env tf reg) = reg \<and>
         proc \<notin> set (registry (run_single_test env tf reg))"
  using assms supervise_registry[of env reg] by (simp add: run_single_test_registry)

theorem handle_removed_on_every_path_witness:
  "registry (run_single_test (plain_env\<lparr>wait := TimeoutExpired\<rparr>) [''asm_test'', ''t.o''] [3999])
     = [3999] \<and>
   registry (run_single_test (plain_env\<lparr>wait := Interrupted\<rparr>) [''asm_test'', ''t.o''] [3999])
     = [3999] \<and>
   registry (run_single_test (plain_env\<lparr>wait := WaitRaises ''oops''\<rparr>) [''asm_test'', ''t.o''] [3999])
     = [3999]"
proof -
  have p: "popen (plain_env\<lparr>wait := w\<rparr>) = Inr 4000" for w
    by (simp add: plain_env_def)
  have n: "(4000::nat) \<notin> set [3999]" by simp
  from handle_removed_on_every_path[OF p n]
  show ?thesis by simp
qed

text \<open>
  Claim C10. A command that exits by itself with status 124 gives the same return value,
  the same printed lines and the same result file as a run whose wall-clock timeout
  expired: status TIMEOUT with the reason wall-clock.
\<close>

theorem exit_124_is_wall_clock_timeout:
  assumes "open_log env = None" and "popen env = Inr proc"
  shows "returned (run_single_test (env\<lparr>wait := Exits 124\<rparr>) tf reg) =
           returned (run_single_test (env\<lparr>wait := TimeoutExpired, killpg_term := None\<rparr>) tf reg) \<and>
         printed (run_single_test (env\<lparr>wait := Exits 124\<rparr>) tf reg) =
           printed (run_single_test (env\<lparr>wait := TimeoutExpired, killpg_term := None\<rparr>) tf reg) \<and>
         result_file (run_single_test (env\<lparr>wait := Exits 124\<rparr>) tf reg) =
           result_file
             (run_single_test (env\<lparr>wait := TimeoutExpired, killpg_term := None\<rparr>) tf reg) \<and>
         (write_result env = None \<longrightarrow>
            returned (run_single_test (env\<lparr>wait := Exits 124\<rparr>) tf reg) =
              Inr (path_stem tf, TIMEOUT) \<and>
            printed (run_single_test (env\<lparr>wait := Exits 124\<rparr>) tf reg) =
              [Starting (path_stem tf), ResultLine TIMEOUT (path_stem tf) WallClock])"
  using assms
  by (auto simp: run_single_test_def supervise_def Let_def status_of_124 split: option.splits)

theorem exit_124_is_wall_clock_timeout_witness:
  "returned (run_single_test (plain_env\<lparr>wait := Exits 124\<rparr>) [''asm_test'', ''a.o''] []) =
     Inr (''a'', TIMEOUT) \<and>
   returned (run_single_test (plain_env\<lparr>wait := TimeoutExpired, killpg_term := None\<rparr>)
     [''asm_test'', ''a.o''] []) = Inr (''a'', TIMEOUT)"
proof -
  have h: "open_log plain_env = None" "popen plain_env = Inr 4000"
          "write_result plain_env = None"
    by (simp_all add: plain_env_def)
  note t = exit_124_is_wall_clock_timeout[OF h(1,2), where tf = "[''asm_test'', ''a.o'']"
             and reg = "[]"]
  from t have e:
    "returned (run_single_test (plain_env\<lparr>wait := Exits 124\<rparr>) [''asm_test'', ''a.o''] []) =
     returned (run_single_test (plain_env\<lparr>wait := TimeoutExpired, killpg_term := None\<rparr>)
       [''asm_test'', ''a.o''] [])"
    by (rule conjunct1)
  from t h(3) have
    "returned (run_single_test (plain_env\<lparr>wait := Exits 124\<rparr>) [''asm_test'', ''a.o''] []) =
     Inr (path_stem [''asm_test'', ''a.o''], TIMEOUT)"
    by blast
  then have r:
    "returned (run_single_test (plain_env\<lparr>wait := Exits 124\<rparr>) [''asm_test'', ''a.o''] []) =
     Inr (''a'', TIMEOUT)"
    by (simp only: example_stems)
  from e[symmetric] r have
    "returned (run_single_test (plain_env\<lparr>wait := TimeoutExpired, killpg_term := None\<rparr>)
       [''asm_test'', ''a.o''] []) = Inr (''a'', TIMEOUT)"
    by (rule trans)
  with r show ?thesis by (rule_tac conjI)
qed

subsection \<open>Cancellation\<close>

text \<open>
  Claim C3. Once a supervised process is registered, a cancellation request finds it and
  terminates its entire process group, so that no process started by the runner is left.

  The handler does find the registered handle, but it calls \<^verbatim>\<open>proc.terminate()\<close> and
  \<^verbatim>\<open>proc.kill()\<close>, which signal the one process, where the timeout path of the same
  function calls \<^verbatim>\<open>os.killpg\<close>. With a signal arriving while the worker waits for
  process 4000, whose group also holds process 4001, the handler signals 4000 only and
  4001 is still running when the handler exits.
\<close>

theorem interrupt_leaves_group_member_running:
  "actions (run_single_test (plain_env\<lparr>wait := Interrupted\<rparr>) [''asm_test'', ''t.o''] []) =
     [Terminate 4000, Sleep 1, Kill 4000] \<and>
   returned (run_single_test (plain_env\<lparr>wait := Interrupted\<rparr>) [''asm_test'', ''t.o''] []) =
     Inl (SystemExit 130) \<and>
   still_running
     (deliver_all
        (actions (run_single_test (plain_env\<lparr>wait := Interrupted\<rparr>) [''asm_test'', ''t.o''] []))
        [\<lparr>pid = 4000, pgid = 4000, running = True\<rparr>,
         \<lparr>pid = 4001, pgid = 4000, running = True\<rparr>]) = [4001]"
  by (simp add: run_single_test_def supervise_def plain_env_def still_running_def Let_def
        cleanup_handler_def no_raise_def)



subsection \<open>The worker pool\<close>

text \<open>
  Claim C4, as amended. In a run that is not interrupted, where \<^verbatim>\<open>as_completed\<close> yields
  every submitted test once, the summary is reached, every test name has exactly one
  result, and the three lists together hold as many names as there are distinct test
  names: \<open>len(passed) + len(failed) + len(timeouts)\<close> equals the number of submitted tests
  when the names (the stems of the test files) are pairwise distinct.
\<close>

theorem one_result_per_distinct_name:
  assumes c: "collect_tests (re_lib env) (is_file env) (glob_result env) (exclude env) =
              Inr tests"
      and ne: "tests \<noteq> []"
      and ev: "events env = map Completed order"
      and perm: "mset order = mset tests"
      and ni: "\<forall>t\<in>set tests. wait (worker_env env t) \<noteq> Interrupted"
  shows "\<exists>passed failed timeouts.
           summary (main env) = Some (passed, failed, timeouts) \<and>
           submitted (main env) = tests \<and>
           distinct (passed @ failed @ timeouts) \<and>
           set (passed @ failed @ timeouts) = path_stem ` set tests \<and>
           length passed + length failed + length timeouts = card (path_stem ` set tests) \<and>
           (distinct (map path_stem tests) \<longrightarrow>
              length passed + length failed + length timeouts = length tests)"
proof -
  let ?fr = "\<lambda>test_file. returned (run_single_test (worker_env env test_file) test_file [])"
  from perm have so: "set order = set tests" by (rule mset_eq_setD)
  have ok: "\<forall>t\<in>set order. (\<forall>c. ?fr t \<noteq> Inl (SystemExit c)) \<and>
              (\<forall>n s. ?fr t = Inr (n, s) \<longrightarrow> n = path_stem t)"
    using ni so returned_SystemExit returned_name by blast
  from loop_completes[of order ?fr "[]" "driver_signals env", OF ok]
  obtain results where
    res: "as_completed_loop (driver_signals env) ?fr (map Completed order) [] = Inr results"
    and dis: "distinct (map fst results)"
    and keys: "set (map fst results) = path_stem ` set order"
    by auto
  obtain passed failed timeouts where
    cat: "categorize results ([], [], []) = (passed, failed, timeouts)"
    by (cases "categorize results ([], [], [])") auto
  from categorize_mset[OF cat]
  have ms: "mset (passed @ failed @ timeouts) = mset (map fst results)" by simp
  from res ev have l: "as_completed_loop (driver_signals env) ?fr (events env) [] = Inr results"
    by simp
  have m: "main env = \<lparr>exit_status = (if failed = [] \<and> timeouts = [] then 0 else 1),
                     submitted = tests, summary = Some (passed, failed, timeouts)\<rparr>"
    using c ne l cat by (rule main_completed)
  have d: "distinct (passed @ failed @ timeouts)"
    using ms dis by (metis mset_eq_imp_distinct_iff)
  have s: "set (passed @ failed @ timeouts) = path_stem ` set tests"
    using ms keys so by (metis mset_eq_setD)
  have len: "length passed + length failed + length timeouts = card (path_stem ` set tests)"
    using s distinct_card[OF d] by simp
  have "distinct (map path_stem tests) \<Longrightarrow> card (path_stem ` set tests) = length tests"
    using distinct_card[of "map path_stem tests"] by simp
  with m d s len show ?thesis by simp
qed

theorem one_result_per_distinct_name_witness:
  "\<exists>passed failed timeouts.
     summary (main example_run) = Some (passed, failed, timeouts) \<and>
     length passed + length failed + length timeouts = 2"
proof -
  have h3: "events example_run = map Completed [[''asm_test'', ''b.o''], [''asm_test'', ''a.o'']]"
    by (simp add: example_run_def)
  have h4: "mset [[''asm_test'', ''b.o''], [''asm_test'', ''a.o'']] =
            mset [[''asm_test'', ''a.o''], [''asm_test'', ''b.o'']]"
    by simp
  have h5: "\<forall>t\<in>set [[''asm_test'', ''a.o''], [''asm_test'', ''b.o'']].
              wait (worker_env example_run t) \<noteq> Interrupted"
    by (simp add: example_run_def plain_env_def)
  have d: "distinct (map path_stem [[''asm_test'', ''a.o''], [''asm_test'', ''b.o'']])"
    by (simp add: example_stems)
  from one_result_per_distinct_name[OF example_collect _ h3 h4 h5] d
  show ?thesis by auto
qed

text \<open>
  Claim C4 as stated fails: two submitted files with one stem share one entry of
  \<^verbatim>\<open>results\<close>. The run on \<^verbatim>\<open>t.S\<close> fails, the later result of \<^verbatim>\<open>t.o\<close> replaces it, and the
  summary holds one passed test for two submitted files.
\<close>

theorem two_files_one_stem_counterexample:
  "submitted (main same_stem_run) = [[''asm_test'', ''t.S''], [''asm_test'', ''t.o'']] \<and>
   summary (main same_stem_run) = Some ([''t''], [], []) \<and>
   exit_status (main same_stem_run) = 0"
  by code_simp




subsection \<open>Test collection\<close>

text \<open>
  Claim C8. A run with an invalid exclusion expression exits with status 1 before any test
  is handed to the pool and reaches no summary: \<^verbatim>\<open>collect_tests\<close> exits at the first
  regular file of the glob result, and with no such file the empty test list ends the run
  with the same status. Otherwise \<^verbatim>\<open>collect_tests\<close> returns the regular files of the
  glob result in sorted order, without those whose base name the exclusion expression
  finds; the empty string, the default of the option, stands for no expression.
\<close>

theorem collect_tests_exclusion:
  "(exclude env \<noteq> [] \<and> re_lib env (exclude env) = None \<longrightarrow>
      exit_status (main env) = 1 \<and> submitted (main env) = [] \<and> summary (main env) = None \<and>
      collect_tests (re_lib env) (is_file env) (glob_result env) (exclude env) =
        (if \<exists>f\<in>set (glob_result env). is_file env f then Inl (SystemExit 1) else Inr [])) \<and>
   (exclude env = [] \<longrightarrow>
      collect_tests (re_lib env) (is_file env) (glob_result env) (exclude env) =
        Inr (filter (is_file env) (sort (glob_result env)))) \<and>
   (exclude env \<noteq> [] \<and> re_lib env (exclude env) = Some search \<longrightarrow>
      collect_tests (re_lib env) (is_file env) (glob_result env) (exclude env) =
        Inr (filter (\<lambda>f. is_file env f \<and> \<not> search (path_name f)) (sort (glob_result env)))) \<and>
   (\<forall>tests. collect_tests (re_lib env) (is_file env) (glob_result env) (exclude env) = Inr tests
      \<longrightarrow> sorted tests)"
proof -
  let ?c = "collect_tests (re_lib env) (is_file env) (glob_result env) (exclude env)"
  have inv: "?c = (if \<exists>f\<in>set (glob_result env). is_file env f then Inl (SystemExit 1)
                   else Inr [])"
    if "exclude env \<noteq> []" "re_lib env (exclude env) = None"
    using that by (simp add: collect_tests_def collect_loop_invalid)
  have none: "?c = Inr (filter (is_file env) (sort (glob_result env)))" if "exclude env = []"
    using that by (simp add: collect_tests_def collect_loop_no_pattern)
  have val: "?c = Inr (filter (\<lambda>f. is_file env f \<and> \<not> s (path_name f)) (sort (glob_result env)))"
    if "exclude env \<noteq> []" "re_lib env (exclude env) = Some s" for s
    using that by (simp add: collect_tests_def collect_loop_valid)
  have m: "exit_status (main env) = 1 \<and> submitted (main env) = [] \<and> summary (main env) = None"
    if "exclude env \<noteq> []" "re_lib env (exclude env) = None"
    using inv[OF that] by (simp add: main_def)
  have srt: "sorted tests" if "?c = Inr tests" for tests
  proof (cases "exclude env = []")
    case True
    from none[OF True] that show ?thesis by (auto simp: sorted_wrt_filter)
  next
    case False
    show ?thesis
    proof (cases "re_lib env (exclude env)")
      case None
      from inv[OF False None] that show ?thesis by (auto split: if_splits)
    next
      case (Some s)
      from val[OF False Some] that show ?thesis by (auto simp: sorted_wrt_filter)
    qed
  qed
  from inv none val m srt show ?thesis by blast
qed

text \<open>
  The example directory with the invalid pattern \<^verbatim>\<open>[\<close>, and with the pattern \<^verbatim>\<open>b\<close>, which
  leaves \<^verbatim>\<open>a.o\<close>.
\<close>

theorem collect_tests_exclusion_witness:
  "exit_status (main (example_run\<lparr>exclude := ''[''\<rparr>)) = 1 \<and>
   submitted (main (example_run\<lparr>exclude := ''[''\<rparr>)) = [] \<and>
   collect_tests literal_re (\<lambda>p. True) [[''asm_test'', ''b.o''], [''asm_test'', ''a.o'']] ''b'' =
     Inr [[''asm_test'', ''a.o'']]"
proof -
  let ?bad = "example_run\<lparr>exclude := ''[''\<rparr>"
  let ?good = "example_run\<lparr>exclude := ''b''\<rparr>"
  have b: "exclude ?bad \<noteq> []" "re_lib ?bad (exclude ?bad) = None"
    by (simp_all add: example_run_def literal_re_def)
  have g: "exclude ?good \<noteq> []" "re_lib ?good (exclude ?good) = Some (\<lambda>name. contains ''b'' name)"
    by (simp_all add: example_run_def literal_re_def)
  have f: "filter (\<lambda>f. is_file ?good f \<and> \<not> contains ''b'' (path_name f))
             (sort (glob_result ?good)) = [[''asm_test'', ''a.o'']]"
    by (simp add: example_run_def path_name_def)
  have sel: "re_lib ?good = literal_re" "is_file ?good = (\<lambda>p. True)"
            "glob_result ?good = [[''asm_test'', ''b.o''], [''asm_test'', ''a.o'']]"
            "exclude ?good = ''b''"
    by (simp_all add: example_run_def)
  from collect_tests_exclusion[of ?bad] b
  have 1: "exit_status (main ?bad) = 1 \<and> submitted (main ?bad) = []" by blast
  from collect_tests_exclusion[of ?good "\<lambda>name. contains ''b'' name"] g
  have "collect_tests (re_lib ?good) (is_file ?good) (glob_result ?good) (exclude ?good) =
        Inr (filter (\<lambda>f. is_file ?good f \<and> \<not> contains ''b'' (path_name f))
               (sort (glob_result ?good)))"
    by blast
  then have 2: "collect_tests literal_re (\<lambda>p. True)
                  [[''asm_test'', ''b.o''], [''asm_test'', ''a.o'']] ''b'' =
                Inr [[''asm_test'', ''a.o'']]"
    unfolding f unfolding sel .
  from 1 2 show ?thesis by blast
qed

subsection \<open>The exit status\<close>



end
